theory Spec2Isabelle
  imports Complex_Main
begin

section \<open>JavaScript numbers and the Math functions the script calls\<close>

text \<open>
  The script computes with JavaScript numbers. They are modelled as the reals: every
  arithmetic operation is exact, so the theorems below are about the formulas the script
  evaluates and say nothing about IEEE rounding. An operation whose JavaScript result is
  not a finite number for finite arguments (a remainder or a quotient by zero, the square
  root of a negative number) returns \<open>None\<close>, which stands for \<open>NaN\<close> or an infinity.
  \<open>Math.cos\<close>, \<open>Math.sin\<close> and \<open>Math.abs\<close> are \<open>cos\<close>, \<open>sin\<close> and \<open>abs\<close>, and
  \<open>Math.PI\<close> is \<open>pi\<close>.
\<close>

definition Math_atan2 :: "real \<Rightarrow> real \<Rightarrow> real" where
  \<comment> \<open>\<open>Math.atan2(y, x)\<close>: the angle of the point \<open>(x, y)\<close>, in \<open>(-pi, pi]\<close>; \<open>0\<close> at the origin.\<close>
  "Math_atan2 y x =
     (if 0 < x then arctan (y / x)
      else if x < 0 then (if 0 \<le> y then arctan (y / x) + pi else arctan (y / x) - pi)
      else if 0 < y then pi / 2
      else if y < 0 then - (pi / 2)
      else 0)"

definition Math_sqrt :: "real \<Rightarrow> real option" where
  \<comment> \<open>\<open>Math.sqrt(x)\<close> is \<open>NaN\<close> for a negative \<open>x\<close>.\<close>
  "Math_sqrt x = (if x < 0 then None else Some (sqrt x))"

definition js_div :: "real \<Rightarrow> real \<Rightarrow> real option" where
  \<comment> \<open>\<open>x / y\<close> where the divisor may be zero: the quotient is then an infinity or \<open>NaN\<close>.\<close>
  "js_div x y = (if y = 0 then None else Some (x / y))"

definition js_trunc :: "real \<Rightarrow> int" where
  \<comment> \<open>Rounding towards zero.\<close>
  "js_trunc x = (if 0 \<le> x then \<lfloor>x\<rfloor> else \<lceil>x\<rceil>)"

definition js_rem :: "real \<Rightarrow> real \<Rightarrow> real option" where
  \<comment> \<open>\<open>x % y\<close>: the remainder of the truncating division, with the sign of \<open>x\<close>;
      \<open>NaN\<close> when \<open>y\<close> is zero.\<close>
  "js_rem x y = (if y = 0 then None else Some (x - y * of_int (js_trunc (x / y))))"

text \<open>
  Text written to the page is kept in pieces: a literal string, a number converted by
  string concatenation, or a number formatted by \<open>toFixed\<close> with its digit count. The
  two conversions are not interpreted.
\<close>

datatype piece = Str string | NumStr real | ToFixed real nat

type_synonym text_content = "piece list"

section \<open>Parallax simulation\<close>

text \<open>The calls on the 2D context and the assignments to its properties, as \<open>draw\<close> makes them.\<close>

datatype ctx_call =
    ClearRect real real real real
  | FillStyle string
  | FillRect "real option" "real option" real real
  | BeginPath
  | Arc real real real real real
  | ShadowBlur real
  | ShadowColor string
  | Fill
  | Ellipse real real real real real real real
  | StrokeStyle string
  | Stroke
  | MoveTo real real
  | LineTo real real
  | SetLineDash "real list"
  | Font string
  | FillText string real real

text \<open>
  Everything \<open>initParallaxSim\<close> closes over: the canvas size set at initialisation, the two
  state variables, the constants computed from the canvas, the calls made on the context
  so far and the contents of the two text elements.
\<close>

record world =
  canvas_width :: real
  canvas_height :: real
  earthAngle :: real
  isDragging :: bool
  centerX :: real
  centerY :: real
  ctx_calls :: "ctx_call list"
  angleDisplay :: text_content
  distDisplay :: text_content

definition orbitRadius :: real where
  "orbitRadius = 100"

definition starDist :: real where
  "starDist = 300"

definition bgStar :: "real \<Rightarrow> real \<Rightarrow> nat \<Rightarrow> ctx_call" where
  \<comment> \<open>The body of the background loop at index \<open>i\<close>, on a canvas of the given width and height.\<close>
  "bgStar cw ch i =
     (let rx = js_rem (sin (real i) * 10000) cw;
          ry = js_rem (cos (real i) * 10000) (ch / 2)
      in FillRect (map_option abs rx) (map_option abs ry) 1 1)"

function starLoop :: "real \<Rightarrow> real \<Rightarrow> nat \<Rightarrow> ctx_call list" where
  "starLoop cw ch i = (if i < 50 then bgStar cw ch i # starLoop cw ch (i + 1) else [])"
  by pat_completeness auto
termination
  by (relation "measure (\<lambda>(cw, ch, i). 50 - i)") auto

declare starLoop.simps [simp del]

definition draw_calls :: "world \<Rightarrow> ctx_call list" where
  "draw_calls w =
     (let ex = centerX w + cos (earthAngle w) * orbitRadius;
          ey = centerY w + sin (earthAngle w) * (orbitRadius * 0.3);
          starX = centerX w;
          starY = centerY w - 150;
          vecX = starX - ex;
          vecY = starY - ey;
          scale = 2.5;
          projX = ex + vecX * scale;
          projY = ey + vecY * scale
      in [ClearRect 0 0 (canvas_width w) (canvas_height w), FillStyle ''#FFF'']
         @ starLoop (canvas_width w) (canvas_height w) 0
         @ [BeginPath, Arc (centerX w) (centerY w) 20 0 (pi * 2), FillStyle ''#FFD700'',
            ShadowBlur 20, ShadowColor ''#FFD700'', Fill, ShadowBlur 0,
            BeginPath,
            Ellipse (centerX w) (centerY w) orbitRadius (orbitRadius * 0.3) 0 0 (pi * 2),
            StrokeStyle ''rgba(255, 255, 255, 0.2)'', Stroke,
            BeginPath, Arc ex ey 8 0 (pi * 2), FillStyle ''#00F3FF'', Fill,
            BeginPath, Arc starX starY 5 0 (pi * 2), FillStyle ''#FF4444'',
            ShadowBlur 10, ShadowColor ''#FF4444'', Fill, ShadowBlur 0,
            BeginPath, MoveTo ex ey, LineTo starX starY,
            StrokeStyle ''rgba(0, 243, 255, 0.5)'', SetLineDash [5, 5], Stroke, SetLineDash [],
            BeginPath, Arc projX projY 4 0 (pi * 2), FillStyle ''rgba(255, 255, 255, 0.8)'', Fill,
            FillStyle ''#AAA'', Font ''10px Arial'',
            FillText ''Apparent Position'' (projX + 10) projY])"

definition draw :: "world \<Rightarrow> world" where
  "draw w = w\<lparr>ctx_calls := ctx_calls w @ draw_calls w\<rparr>"

definition maxAngle :: real where
  "maxAngle = 0.76"

definition currentAngle :: "real \<Rightarrow> real" where
  \<comment> \<open>The local \<open>currentAngle\<close> of \<open>updateData\<close>, for a value of \<open>earthAngle\<close>.\<close>
  "currentAngle a =
     (let earthX = cos a * orbitRadius
      in \<bar>(earthX / orbitRadius) * maxAngle\<bar>)"

definition dist :: "real \<Rightarrow> real" where
  \<comment> \<open>The local \<open>dist\<close> of \<open>updateData\<close> after the conditional, for a value of \<open>earthAngle\<close>.\<close>
  "dist a = (if currentAngle a > 0.01 then 1 / currentAngle a else 100)"

definition updateData :: "world \<Rightarrow> world" where
  "updateData w =
     (let w1 = w\<lparr>angleDisplay := [ToFixed (currentAngle (earthAngle w)) 3, Str [CHR 0x22]]\<rparr>
      in w1\<lparr>distDisplay := [ToFixed (dist (earthAngle w)) 2, Str '' pc'']\<rparr>)"

definition updateData_divisors :: "real \<Rightarrow> real list" where
  \<comment> \<open>The right operands of the divisions \<open>updateData\<close> evaluates, in the order it
      evaluates them: \<open>earthX / orbitRadius\<close> always, \<open>1 / currentAngle\<close> only in the first
      branch of the conditional.\<close>
  "updateData_divisors a =
     orbitRadius # (if currentAngle a > 0.01 then [currentAngle a] else [])"

definition updateEarthPos :: "real \<Rightarrow> real \<Rightarrow> world \<Rightarrow> world" where
  "updateEarthPos mouseX mouseY w =
     (let dx = mouseX - centerX w;
          dy = mouseY - centerY w;
          w1 = w\<lparr>earthAngle := Math_atan2 dy dx\<rparr>
      in updateData (draw w1))"

text \<open>
  A mouse event carries the client coordinates; the handlers read the canvas's bounding
  rectangle when the event arrives, so its left and top edges come with the event.
\<close>

record mouse =
  clientX :: real
  clientY :: real
  rect_left :: real
  rect_top :: real

definition mousedown :: "mouse \<Rightarrow> world \<Rightarrow> world" where
  "mousedown e w =
     (let x = clientX e - rect_left e;
          y = clientY e - rect_top e
      in updateEarthPos x y (w\<lparr>isDragging := True\<rparr>))"

definition mousemove :: "mouse \<Rightarrow> world \<Rightarrow> world" where
  "mousemove e w =
     (if \<not> isDragging w then w
      else let x = clientX e - rect_left e;
               y = clientY e - rect_top e
           in updateEarthPos x y w)"

definition mouseup :: "world \<Rightarrow> world" where
  "mouseup w = w\<lparr>isDragging := False\<rparr>"

datatype event = MouseDown mouse | MouseMove mouse | MouseUp

fun handle :: "event \<Rightarrow> world \<Rightarrow> world" where
  "handle (MouseDown e) w = mousedown e w"
| "handle (MouseMove e) w = mousemove e w"
| "handle MouseUp w = mouseup w"

fun run :: "event list \<Rightarrow> world \<Rightarrow> world" where
  "run [] w = w"
| "run (e # es) w = run es (handle e w)"

definition initParallaxSim :: "real \<Rightarrow> real \<Rightarrow> text_content \<Rightarrow> text_content \<Rightarrow> world" where
  \<comment> \<open>The canvas takes the client size of its parent; the two text elements keep what
      the page put there until the first \<open>updateData\<close>.\<close>
  "initParallaxSim clientWidth clientHeight angleText distText =
     draw \<lparr>canvas_width = clientWidth, canvas_height = clientHeight,
           earthAngle = 0, isDragging = False,
           centerX = clientWidth / 2, centerY = clientHeight * 0.8,
           ctx_calls = [], angleDisplay = angleText, distDisplay = distText\<rparr>"

definition bgStars :: "ctx_call list \<Rightarrow> ctx_call list" where
  \<comment> \<open>The background stars among the calls of one \<open>draw\<close>: its only \<open>fillRect\<close> calls.\<close>
  "bgStars cs = filter (\<lambda>c. case c of FillRect x y w h \<Rightarrow> True | _ \<Rightarrow> False) cs"


section \<open>Size simulation\<close>

text \<open>The text elements and the style properties of the star element that \<open>updateStar\<close> writes.\<close>

record star_dom =
  lumVal :: text_content
  tempVal :: text_content
  radiusVal :: text_content
  style_width :: text_content
  style_height :: text_content
  style_background :: text_content
  style_boxShadow :: text_content

definition T_sun :: real where
  "T_sun = 5800"

definition R_rel :: "real \<Rightarrow> real \<Rightarrow> real option" where
  \<comment> \<open>The local \<open>R_rel\<close> of \<open>updateStar\<close>; \<open>None\<close> when it is not a finite number.\<close>
  "R_rel L T =
     (let T_rel = T / T_sun
      in Option.bind (Math_sqrt L) (\<lambda>s. js_div s (T_rel * T_rel)))"

definition pxSize :: "real \<Rightarrow> real" where
  \<comment> \<open>The local \<open>pxSize\<close> of \<open>updateStar\<close> after the two clamping statements.\<close>
  "pxSize r =
     (let px = 100 * r;
          px = (if px < 5 then 5 else px);
          px = (if px > 300 then 300 else px)
      in px)"

definition starColors :: "real \<Rightarrow> string \<times> string \<times> string" where
  \<comment> \<open>\<open>(colorStart, colorEnd, glow)\<close> after the conditional; the initial values are
      overwritten in every branch.\<close>
  "starColors T =
     (let initial = (''#fff'', ''#ccc'', ''#fff'')
      in if T < 4000 then (''#ff8844'', ''#cc2200'', ''#ff2200'')
         else if T < 6000 then (''#ffdd44'', ''#cc9900'', ''#ffaa00'')
         else if T < 8000 then (''#ffffff'', ''#cccccc'', ''#ccccff'')
         else (''#aaddff'', ''#4488ff'', ''#0088ff''))"

definition updateStar :: "real \<Rightarrow> real \<Rightarrow> star_dom \<Rightarrow> star_dom option" where
  \<comment> \<open>\<open>L\<close> and \<open>T\<close> are the parsed slider values. The result is \<open>None\<close> when \<open>R_rel\<close> is
      not a finite number: the model does not follow the script there.\<close>
  "updateStar L T d =
     (let d1 = d\<lparr>lumVal := [NumStr L, Str ''x Sun''], tempVal := [NumStr T, Str '' K'']\<rparr>
      in case R_rel L T of
           None \<Rightarrow> None
         | Some r \<Rightarrow>
             let d2 = d1\<lparr>radiusVal := [ToFixed r 2, Str '' x Sun'']\<rparr>;
                 px = pxSize r;
                 d3 = d2\<lparr>style_width := [NumStr px, Str ''px''],
                         style_height := [NumStr px, Str ''px'']\<rparr>;
                 (colorStart, colorEnd, glow) = starColors T
             in Some (d3\<lparr>style_background :=
                            [Str ''radial-gradient(circle at 30% 30%, '', Str colorStart,
                             Str '', '', Str colorEnd, Str '')''],
                          style_boxShadow :=
                            [Str ''0 0 '', NumStr (px / 2), Str ''px '', Str glow]\<rparr>))"


section \<open>Sample inputs\<close>

definition world0 :: world where
  \<comment> \<open>An idle component on an 800 by 500 canvas.\<close>
  "world0 = \<lparr>canvas_width = 800, canvas_height = 500, earthAngle = 0, isDragging = False,
             centerX = 400, centerY = 400, ctx_calls = [], angleDisplay = [], distDisplay = []\<rparr>"

definition mouse0 :: mouse where
  \<comment> \<open>A pointer 100 pixels right of and 100 pixels below the sun centre of \<open>world0\<close>.\<close>
  "mouse0 = \<lparr>clientX = 510, clientY = 520, rect_left = 10, rect_top = 20\<rparr>"

definition blank :: star_dom where
  "blank = \<lparr>lumVal = [], tempVal = [], radiusVal = [], style_width = [], style_height = [],
            style_background = [], style_boxShadow = []\<rparr>"

section \<open>Parallax reading\<close>

lemma currentAngle_eq: "currentAngle a = \<bar>cos a\<bar> * maxAngle"
  by (simp add: currentAngle_def orbitRadius_def maxAngle_def abs_mult)

lemma currentAngle_0: "currentAngle 0 = 0.76"
  by (simp add: currentAngle_eq maxAngle_def)

lemma currentAngle_half_pi: "currentAngle (pi / 2) = 0"
  by (simp add: currentAngle_eq)

text \<open>
  Claim C1. For every value of the orbital angle, the parallax angle that \<open>updateData\<close>
  displays is \<open>abs (cos angle * maxAngle)\<close> with \<open>maxAngle = 0.76\<close>, and it lies in the
  closed interval from \<open>0\<close> to \<open>maxAngle\<close>.
\<close>

theorem parallax_angle_formula:
  "currentAngle a = \<bar>cos a * maxAngle\<bar> \<and> maxAngle = 0.76
   \<and> 0 \<le> currentAngle a \<and> currentAngle a \<le> maxAngle
   \<and> angleDisplay (updateData w) = [ToFixed \<bar>cos (earthAngle w) * 0.76\<bar> 3, Str [CHR 0x22]]"
proof -
  have m: "maxAngle = 0.76" by (simp add: maxAngle_def)
  have e: "currentAngle b = \<bar>cos b * maxAngle\<bar>" for b
    by (simp add: currentAngle_eq abs_mult m)
  have "\<bar>cos a\<bar> * maxAngle \<le> 1 * maxAngle"
    by (rule mult_right_mono) (simp_all add: m)
  then have u: "currentAngle a \<le> maxAngle" by (simp add: currentAngle_eq)
  have l: "0 \<le> currentAngle a" by (simp add: e)
  have d: "angleDisplay (updateData w) = [ToFixed \<bar>cos (earthAngle w) * 0.76\<bar> 3, Str [CHR 0x22]]"
    using e [of "earthAngle w"] by (simp add: updateData_def m)
  from m e l u d show ?thesis by blast
qed

theorem parallax_angle_formula_witness:
  "currentAngle 0 = 0.76 \<and> currentAngle pi = 0.76
   \<and> angleDisplay (updateData world0) = [ToFixed 0.76 3, Str [CHR 0x22]]"
  using parallax_angle_formula [of 0 world0] parallax_angle_formula [of pi world0]
  by (simp add: world0_def)

text \<open>
  Claim C2. For every value of the orbital angle, the displayed distance is
  \<open>1 / angleArcsec\<close> when \<open>angleArcsec > 0.01\<close> and the sentinel \<open>100\<close> otherwise, and no
  division that \<open>updateData\<close> evaluates has a divisor at or below \<open>0.01\<close>.
\<close>

theorem distance_guard:
  "(currentAngle a > 0.01 \<longrightarrow> dist a = 1 / currentAngle a)
   \<and> (currentAngle a \<le> 0.01 \<longrightarrow> dist a = 100)
   \<and> (\<forall>d \<in> set (updateData_divisors a). d > 0.01)
   \<and> distDisplay (updateData w) = [ToFixed (dist (earthAngle w)) 2, Str '' pc'']"
  by (simp add: dist_def updateData_divisors_def updateData_def orbitRadius_def)

theorem distance_guard_witness:
  "currentAngle 0 > 0.01 \<and> dist 0 = 1 / 0.76
   \<and> currentAngle (pi / 2) \<le> 0.01 \<and> dist (pi / 2) = 100
   \<and> distDisplay (updateData world0) = [ToFixed (1 / 0.76) 2, Str '' pc'']"
  using distance_guard [of 0 world0] distance_guard [of "pi / 2" world0]
  by (simp add: currentAngle_0 currentAngle_half_pi world0_def)

text \<open>
  Claim C7. The parallax angle is the same at an orbital angle \<open>a\<close>, at \<open>- a\<close> and at
  \<open>pi - a\<close>.
\<close>

theorem parallax_angle_symmetry:
  "currentAngle (- a) = currentAngle a \<and> currentAngle (pi - a) = currentAngle a"
  by (simp add: currentAngle_eq)

theorem parallax_angle_symmetry_witness:
  "currentAngle (- (pi / 3)) = currentAngle (pi / 3)
   \<and> currentAngle (pi - pi / 3) = currentAngle (pi / 3)"
  using parallax_angle_symmetry [of "pi / 3"] by simp


section \<open>Pointer input\<close>

lemma earthAngle_draw [simp]: "earthAngle (draw w) = earthAngle w"
  by (simp add: draw_def)

lemma isDragging_draw [simp]: "isDragging (draw w) = isDragging w"
  by (simp add: draw_def)

lemma earthAngle_updateData [simp]: "earthAngle (updateData w) = earthAngle w"
  by (simp add: updateData_def)

lemma isDragging_updateData [simp]: "isDragging (updateData w) = isDragging w"
  by (simp add: updateData_def)

lemma earthAngle_updateEarthPos:
  "earthAngle (updateEarthPos mx my w) = Math_atan2 (my - centerY w) (mx - centerX w)"
  by (simp add: updateEarthPos_def)

lemma isDragging_updateEarthPos [simp]:
  "isDragging (updateEarthPos mx my w) = isDragging w"
  by (simp add: updateEarthPos_def)

lemma Math_atan2_scale:
  assumes "0 < k"
  shows "Math_atan2 (k * y) (k * x) = Math_atan2 y x"
  using assms
  by (simp add: Math_atan2_def zero_less_mult_iff mult_less_0_iff zero_le_mult_iff)

lemma Math_atan2_diagonal: "Math_atan2 100 100 = pi / 4"
  by (simp add: Math_atan2_def arctan_one)

text \<open>
  Claim C6. For every pointer position \<open>(mx, my)\<close> delivered by a press or a drag, the
  new orbital angle is \<open>atan2 (my - cy) (mx - cx)\<close> for the sun centre \<open>(cx, cy)\<close>, and
  moving the pointer along the ray from the sun centre, to any positive multiple of its
  offset, leaves the angle the same.
\<close>

theorem angle_from_pointer:
  "earthAngle (updateEarthPos mx my w) = Math_atan2 (my - centerY w) (mx - centerX w)
   \<and> earthAngle (mousedown e w) =
       Math_atan2 (clientY e - rect_top e - centerY w) (clientX e - rect_left e - centerX w)
   \<and> (isDragging w \<longrightarrow> earthAngle (mousemove e w) =
       Math_atan2 (clientY e - rect_top e - centerY w) (clientX e - rect_left e - centerX w))
   \<and> (0 < k \<longrightarrow>
        earthAngle (updateEarthPos (centerX w + k * (mx - centerX w))
                                   (centerY w + k * (my - centerY w)) w)
        = earthAngle (updateEarthPos mx my w))"
  by (simp add: earthAngle_updateEarthPos mousedown_def mousemove_def Math_atan2_scale)

theorem angle_from_pointer_witness:
  "isDragging (world0\<lparr>isDragging := True\<rparr>) \<and> (0::real) < 3
   \<and> earthAngle (mousedown mouse0 world0) = pi / 4
   \<and> earthAngle (mousemove mouse0 (world0\<lparr>isDragging := True\<rparr>)) = pi / 4
   \<and> earthAngle (updateEarthPos 700 700 (world0\<lparr>isDragging := True\<rparr>))
       = earthAngle (updateEarthPos 500 500 (world0\<lparr>isDragging := True\<rparr>))"
  using angle_from_pointer [of 500 500 "world0\<lparr>isDragging := True\<rparr>" mouse0 3]
        angle_from_pointer [of 500 500 world0 mouse0 3]
  by (simp add: world0_def mouse0_def Math_atan2_diagonal)

text \<open>
  Claim C8. While the dragging flag is false a pointer move is ignored: the whole
  component, its state, the calls on the canvas and the two text elements, stays as it
  was. The angle is recomputed on a pointer move only while the flag is true. The
  component is idle after initialisation and after every pointer release.
\<close>

theorem idle_move_ignored:
  "(\<not> isDragging w \<longrightarrow> mousemove e w = w \<and> handle (MouseMove e) w = w)
   \<and> (isDragging w \<longrightarrow>
        mousemove e w =
          updateData (draw (w\<lparr>earthAngle :=
            Math_atan2 (clientY e - rect_top e - centerY w)
                       (clientX e - rect_left e - centerX w)\<rparr>)))
   \<and> mousemove e (mouseup w) = mouseup w
   \<and> mousemove e (initParallaxSim cw ch atxt dtxt) = initParallaxSim cw ch atxt dtxt"
  by (simp add: mousemove_def updateEarthPos_def mouseup_def initParallaxSim_def)

theorem idle_move_ignored_witness:
  "\<not> isDragging world0 \<and> mousemove mouse0 world0 = world0
   \<and> isDragging (world0\<lparr>isDragging := True\<rparr>)
   \<and> mousemove mouse0 (world0\<lparr>isDragging := True\<rparr>)
       = updateData (draw (world0\<lparr>isDragging := True, earthAngle := pi / 4\<rparr>))"
  using idle_move_ignored [of world0 mouse0]
        idle_move_ignored [of "world0\<lparr>isDragging := True\<rparr>" mouse0]
  by (simp add: world0_def mouse0_def Math_atan2_diagonal)

text \<open>
  Claim C10. Neither \<open>draw\<close> nor \<open>updateData\<close> changes \<open>earthAngle\<close> or \<open>isDragging\<close>:
  \<open>draw\<close> only adds calls on the canvas context and \<open>updateData\<close> only writes the two
  text elements. The state changes in the pointer handlers: a press sets the flag and the
  angle, a release clears the flag and keeps the angle.
\<close>

theorem render_keeps_state:
  "earthAngle (draw w) = earthAngle w \<and> isDragging (draw w) = isDragging w
   \<and> earthAngle (updateData w) = earthAngle w \<and> isDragging (updateData w) = isDragging w
   \<and> draw w = w\<lparr>ctx_calls := ctx_calls (draw w)\<rparr>
   \<and> updateData w = w\<lparr>angleDisplay := angleDisplay (updateData w),
                        distDisplay := distDisplay (updateData w)\<rparr>
   \<and> isDragging (mousedown e w) \<and> \<not> isDragging (mouseup w)
   \<and> earthAngle (mouseup w) = earthAngle w"
  by (simp add: mousedown_def mouseup_def) (simp add: draw_def updateData_def)

theorem render_keeps_state_witness:
  "earthAngle (draw (world0\<lparr>earthAngle := 1, isDragging := True\<rparr>)) = 1
   \<and> isDragging (draw (world0\<lparr>earthAngle := 1, isDragging := True\<rparr>))
   \<and> earthAngle (updateData (world0\<lparr>earthAngle := 1, isDragging := True\<rparr>)) = 1
   \<and> isDragging (updateData (world0\<lparr>earthAngle := 1, isDragging := True\<rparr>))"
  using render_keeps_state [of "world0\<lparr>earthAngle := 1, isDragging := True\<rparr>" mouse0]
  by (simp add: world0_def)


section \<open>Background stars\<close>

lemma starLoop_map: "i \<le> 50 \<Longrightarrow> starLoop cw ch i = map (bgStar cw ch) [i..<50]"
proof (induction cw ch i rule: starLoop.induct)
  case (1 cw ch i)
  show ?case
  proof (cases "i < 50")
    case True
    then have "starLoop cw ch i = bgStar cw ch i # starLoop cw ch (i + 1)"
      by (subst starLoop.simps) simp
    also have "starLoop cw ch (i + 1) = map (bgStar cw ch) [i + 1..<50]"
      using "1.IH" True by simp
    also have "bgStar cw ch i # map (bgStar cw ch) [i + 1..<50] = map (bgStar cw ch) [i..<50]"
      using True by (simp add: upt_conv_Cons)
    finally show ?thesis .
  next
    case False
    with "1.prems" have "i = 50" by simp
    then show ?thesis by (subst starLoop.simps) simp
  qed
qed

lemma bgStars_map: "bgStars (map (bgStar cw ch) ns) = map (bgStar cw ch) ns"
  by (induction ns) (simp_all add: bgStars_def bgStar_def Let_def)

lemma bgStars_append: "bgStars (xs @ ys) = bgStars xs @ bgStars ys"
  by (simp add: bgStars_def)

lemma bgStars_draw_calls:
  "bgStars (draw_calls w) = map (bgStar (canvas_width w) (canvas_height w)) [0..<50]"
proof -
  have "bgStars (starLoop (canvas_width w) (canvas_height w) 0)
          = map (bgStar (canvas_width w) (canvas_height w)) [0..<50]"
    by (simp add: starLoop_map bgStars_map)
  then show ?thesis
    by (simp add: draw_calls_def Let_def bgStars_append del: upt_rec_numeral)
      (simp add: bgStars_def del: upt_rec_numeral)
qed

lemma canvas_draw [simp]:
  "canvas_width (draw w) = canvas_width w" "canvas_height (draw w) = canvas_height w"
  by (simp_all add: draw_def)

lemma canvas_updateData [simp]:
  "canvas_width (updateData w) = canvas_width w" "canvas_height (updateData w) = canvas_height w"
  by (simp_all add: updateData_def)

lemma canvas_handle [simp]:
  "canvas_width (handle ev w) = canvas_width w" "canvas_height (handle ev w) = canvas_height w"
  by (cases ev; simp add: mousedown_def mousemove_def mouseup_def updateEarthPos_def)+

lemma canvas_run [simp]:
  "canvas_width (run es w) = canvas_width w" "canvas_height (run es w) = canvas_height w"
  by (induction es arbitrary: w; simp)+

lemma ctx_calls_draw: "ctx_calls (draw w) = ctx_calls w @ draw_calls w"
  by (simp add: draw_def)

text \<open>
  Claim C9. The background stars that \<open>draw\<close> paints are a function of the star index,
  for the indices \<open>0\<close> to \<open>49\<close>, on the canvas whose size initialisation has set and no
  handler changes: after any sequence of pointer events, and for any value of the orbital
  angle and of the dragging flag, an invocation of \<open>draw\<close> paints the same list of star
  positions.
\<close>

theorem background_stars_fixed:
  "bgStars (draw_calls (run es w)) = map (bgStar (canvas_width w) (canvas_height w)) [0..<50]
   \<and> bgStars (draw_calls (w\<lparr>earthAngle := a, isDragging := b\<rparr>)) = bgStars (draw_calls w)
   \<and> bgStars (draw_calls (run es w)) = bgStars (draw_calls (run es' w))
   \<and> ctx_calls (draw (run es w)) = ctx_calls (run es w) @ draw_calls (run es w)"
  by (simp add: bgStars_draw_calls ctx_calls_draw del: upt_rec_numeral)

theorem background_stars_fixed_witness:
  "bgStars (draw_calls (run [MouseDown mouse0, MouseUp] world0)) = map (bgStar 800 500) [0..<50]
   \<and> bgStars (draw_calls (run [MouseDown mouse0, MouseUp] world0))
       = bgStars (draw_calls (run [] world0))"
proof -
  have size0: "canvas_width world0 = 800" "canvas_height world0 = 500"
    by (simp_all add: world0_def)
  note fixed = background_stars_fixed
    [where es = "[MouseDown mouse0, MouseUp]" and w = world0 and es' = "[]"]
  from fixed have
    "bgStars (draw_calls (run [MouseDown mouse0, MouseUp] world0))
       = map (bgStar (canvas_width world0) (canvas_height world0)) [0..<50]"
    by (rule conjunct1)
  moreover from fixed have
    "bgStars (draw_calls (run [MouseDown mouse0, MouseUp] world0))
       = bgStars (draw_calls (run [] world0))"
    by blast
  ultimately show ?thesis
    unfolding size0 by (rule conjI)
qed

section \<open>Star size and colour\<close>

lemma R_rel_valid:
  assumes "0 \<le> L" "0 < T"
  shows "R_rel L T = Some (sqrt L / (T / 5800)\<^sup>2)"
  using assms by (simp add: R_rel_def Math_sqrt_def js_div_def T_sun_def power2_eq_square)

lemma updateStar_radius:
  assumes "R_rel L T = Some r"
  shows "\<exists>d'. updateStar L T d = Some d' \<and> radiusVal d' = [ToFixed r 2, Str '' x Sun'']"
  using assms by (simp add: updateStar_def Let_def split: prod.split)

lemma updateStar_size:
  assumes "R_rel L T = Some r"
  shows "\<exists>d'. updateStar L T d = Some d'
           \<and> style_width d' = [NumStr (pxSize r), Str ''px'']
           \<and> style_height d' = [NumStr (pxSize r), Str ''px'']"
  using assms by (simp add: updateStar_def Let_def split: prod.split)

lemma updateStar_colors:
  assumes "updateStar L T d = Some d'" and "starColors T = (cs, ce, g)"
  shows "style_background d' =
           [Str ''radial-gradient(circle at 30% 30%, '', Str cs, Str '', '', Str ce, Str '')'']
         \<and> (\<exists>px. style_boxShadow d' = [Str ''0 0 '', NumStr (px / 2), Str ''px '', Str g])"
  using assms by (auto simp add: updateStar_def Let_def split: option.splits)

lemma pxSize_clamp:
  "pxSize r = (if 100 * r < 5 then 5 else if 100 * r > 300 then 300 else 100 * r)"
  by (simp add: pxSize_def Let_def)

text \<open>
  Claim C3. For every luminosity \<open>L \<ge> 0\<close> and temperature \<open>T > 0\<close> the relative radius
  that \<open>updateStar\<close> derives and displays is \<open>sqrt L / (T / 5800)\<^sup>2\<close>, and for \<open>L = 1\<close>,
  \<open>T = 5800\<close> it is exactly \<open>1\<close>.
\<close>

theorem relative_radius_formula:
  "(0 \<le> L \<and> 0 < T \<longrightarrow>
      R_rel L T = Some (sqrt L / (T / 5800)\<^sup>2)
      \<and> (\<exists>d'. updateStar L T d = Some d'
            \<and> radiusVal d' = [ToFixed (sqrt L / (T / 5800)\<^sup>2) 2, Str '' x Sun'']))
   \<and> R_rel 1 5800 = Some 1"
proof -
  have "R_rel 1 5800 = Some 1"
    using R_rel_valid [of 1 5800] by simp
  then show ?thesis
    using R_rel_valid updateStar_radius by blast
qed

theorem relative_radius_formula_witness:
  "(0::real) \<le> 4 \<and> (0::real) < 2900 \<and> R_rel 4 2900 = Some 8
   \<and> (\<exists>d'. updateStar 4 2900 blank = Some d' \<and> radiusVal d' = [ToFixed 8 2, Str '' x Sun''])
   \<and> R_rel 1 5800 = Some 1"
  using relative_radius_formula [of 4 2900 blank]
  by (simp add: power2_eq_square)


text \<open>
  Claim C4. For every valid slider input, \<open>L \<ge> 0\<close> and \<open>T > 0\<close>, the width and the height
  that \<open>updateStar\<close> gives the star element are \<open>100 * R_rel\<close> clamped to the interval from
  \<open>5\<close> to \<open>300\<close>: \<open>5\<close> when \<open>100 * R_rel < 5\<close>, \<open>300\<close> when \<open>100 * R_rel > 300\<close>, and
  \<open>100 * R_rel\<close> otherwise.
\<close>

theorem pixel_size_clamped:
  assumes "0 \<le> L" and "0 < T"
  shows "\<exists>r d'. R_rel L T = Some r \<and> updateStar L T d = Some d'
           \<and> style_width d' = [NumStr (pxSize r), Str ''px'']
           \<and> style_height d' = [NumStr (pxSize r), Str ''px'']
           \<and> pxSize r = (if 100 * r < 5 then 5 else if 100 * r > 300 then 300 else 100 * r)
           \<and> 5 \<le> pxSize r \<and> pxSize r \<le> 300"
proof -
  from assms obtain r where r: "R_rel L T = Some r"
    by (simp add: R_rel_valid)
  from updateStar_size [OF r] obtain d' where
    "updateStar L T d = Some d'"
    "style_width d' = [NumStr (pxSize r), Str ''px'']"
    "style_height d' = [NumStr (pxSize r), Str ''px'']"
    by blast
  moreover have "5 \<le> pxSize r" "pxSize r \<le> 300"
    by (simp_all add: pxSize_clamp)
  ultimately show ?thesis using r pxSize_clamp by blast
qed

theorem pixel_size_clamped_witness:
  "(0::real) \<le> 100 \<and> (0::real) < 2000
   \<and> (\<exists>d'. updateStar 100 2000 blank = Some d' \<and> style_width d' = [NumStr 300, Str ''px''])
   \<and> (0::real) \<le> 1 / 100 \<and> (0::real) < 12000
   \<and> (\<exists>d'. updateStar (1 / 100) 12000 blank = Some d' \<and> style_width d' = [NumStr 5, Str ''px''])"
proof -
  have big: "\<exists>d'. updateStar 100 2000 blank = Some d' \<and> style_width d' = [NumStr 300, Str ''px'']"
  proof -
    from pixel_size_clamped [of 100 2000 blank] obtain r d' where
      r: "R_rel 100 2000 = Some r" and d: "updateStar 100 2000 blank = Some d'"
      and w: "style_width d' = [NumStr (pxSize r), Str ''px'']"
      and c: "pxSize r = (if 100 * r < 5 then 5 else if 100 * r > 300 then 300 else 100 * r)"
      by auto
    have "sqrt 100 = 10" by (rule real_sqrt_unique) simp_all
    with r have "r = 10 / (2000 / 5800)\<^sup>2" using R_rel_valid [of 100 2000] by simp
    then have "100 * r > 300" by (simp add: power2_eq_square)
    with c have "pxSize r = 300" by simp
    with d w show ?thesis by simp
  qed
  have small: "\<exists>d'. updateStar (1 / 100) 12000 blank = Some d'
                 \<and> style_width d' = [NumStr 5, Str ''px'']"
  proof -
    from pixel_size_clamped [of "1 / 100" 12000 blank] obtain r d' where
      r: "R_rel (1 / 100) 12000 = Some r" and d: "updateStar (1 / 100) 12000 blank = Some d'"
      and w: "style_width d' = [NumStr (pxSize r), Str ''px'']"
      and c: "pxSize r = (if 100 * r < 5 then 5 else if 100 * r > 300 then 300 else 100 * r)"
      by auto
    have "sqrt (1 / 100) = 1 / 10" by (rule real_sqrt_unique) (simp_all add: power2_eq_square)
    with r have "r = (1 / 10) / (12000 / 5800)\<^sup>2" using R_rel_valid [of "1 / 100" 12000] by simp
    then have "100 * r < 5" by (simp add: power2_eq_square)
    with c have "pxSize r = 5" by simp
    with d w show ?thesis by simp
  qed
  from big small show ?thesis by simp
qed

text \<open>
  Claim C5. For every temperature \<open>T\<close> the gradient start, the gradient end and the glow
  colour are those of the band \<open>T\<close> falls in, each band containing its lower bound and not
  its upper one: below \<open>4000\<close>, from \<open>4000\<close> to below \<open>6000\<close>, from \<open>6000\<close> to below \<open>8000\<close>,
  and from \<open>8000\<close> up; these are the colours \<open>updateStar\<close> writes into the background
  gradient and the box shadow.
\<close>

theorem color_bands:
  "(T < 4000 \<longrightarrow> starColors T = (''#ff8844'', ''#cc2200'', ''#ff2200''))
   \<and> (4000 \<le> T \<and> T < 6000 \<longrightarrow> starColors T = (''#ffdd44'', ''#cc9900'', ''#ffaa00''))
   \<and> (6000 \<le> T \<and> T < 8000 \<longrightarrow> starColors T = (''#ffffff'', ''#cccccc'', ''#ccccff''))
   \<and> (8000 \<le> T \<longrightarrow> starColors T = (''#aaddff'', ''#4488ff'', ''#0088ff''))
   \<and> (\<forall>d d'. updateStar L T d = Some d' \<longrightarrow>
         (\<exists>px. style_background d' =
                  [Str ''radial-gradient(circle at 30% 30%, '', Str (fst (starColors T)),
                   Str '', '', Str (fst (snd (starColors T))), Str '')'']
               \<and> style_boxShadow d' =
                  [Str ''0 0 '', NumStr (px / 2), Str ''px '', Str (snd (snd (starColors T)))]))"
proof -
  have bands:
    "T < 4000 \<longrightarrow> starColors T = (''#ff8844'', ''#cc2200'', ''#ff2200'')"
    "4000 \<le> T \<and> T < 6000 \<longrightarrow> starColors T = (''#ffdd44'', ''#cc9900'', ''#ffaa00'')"
    "6000 \<le> T \<and> T < 8000 \<longrightarrow> starColors T = (''#ffffff'', ''#cccccc'', ''#ccccff'')"
    "8000 \<le> T \<longrightarrow> starColors T = (''#aaddff'', ''#4488ff'', ''#0088ff'')"
    by (simp_all add: starColors_def)
  have out: "\<exists>px. style_background d' =
                  [Str ''radial-gradient(circle at 30% 30%, '', Str (fst (starColors T)),
                   Str '', '', Str (fst (snd (starColors T))), Str '')'']
               \<and> style_boxShadow d' =
                  [Str ''0 0 '', NumStr (px / 2), Str ''px '', Str (snd (snd (starColors T)))]"
    if "updateStar L T d = Some d'" for d d'
    using updateStar_colors [OF that, of "fst (starColors T)" "fst (snd (starColors T))"
        "snd (snd (starColors T))"]
    by auto
  from bands out show ?thesis by blast
qed

theorem color_bands_witness:
  "starColors 3999 = (''#ff8844'', ''#cc2200'', ''#ff2200'')
   \<and> starColors 4000 = (''#ffdd44'', ''#cc9900'', ''#ffaa00'')
   \<and> starColors 5999 = (''#ffdd44'', ''#cc9900'', ''#ffaa00'')
   \<and> starColors 6000 = (''#ffffff'', ''#cccccc'', ''#ccccff'')
   \<and> starColors 7999 = (''#ffffff'', ''#cccccc'', ''#ccccff'')
   \<and> starColors 8000 = (''#aaddff'', ''#4488ff'', ''#0088ff'')"
  using color_bands [of 3999] color_bands [of 4000] color_bands [of 5999]
        color_bands [of 6000] color_bands [of 7999] color_bands [of 8000]
  by simp

end
